theory Spec2Isabelle
  imports Main "HOL-Library.Multiset"
begin

section \<open>Values, documents and JavaScript conversions\<close>

text \<open>
  The server stores and receives schemaless documents. A field holds a scalar JSON value
  or a \<open>Date\<close> written by the server (\<open>new Date()\<close>, milliseconds since the epoch).
  Numbers are the integers; nested objects and arrays are outside the value model.
  A missing field reads as JavaScript's \<open>undefined\<close>, modelled by \<open>None\<close>.
  Field names are plain top-level names. A stored record is the pair of its identifier
  \<open>_id\<close> and its document.
\<close>

datatype jv = JNull | JBool bool | JNum int | JStr string | JDate nat

type_synonym doc = "(string \<times> jv) list"

type_synonym oid = nat

definition field :: "doc \<Rightarrow> string \<Rightarrow> jv option" where
  "field d k = map_of d k"

text \<open>JavaScript truthiness, as tested by \<open>if (x)\<close>, \<open>x && y\<close> and \<open>x || y\<close>.\<close>

fun truthy :: "jv option \<Rightarrow> bool" where
  "truthy None = False"
| "truthy (Some JNull) = False"
| "truthy (Some (JBool b)) = b"
| "truthy (Some (JNum n)) = (n \<noteq> 0)"
| "truthy (Some (JStr s)) = (s \<noteq> [])"
| "truthy (Some (JDate t)) = True"

text \<open>
  Interpolation into a template literal \<open>`${x}`\<close>. The renderings of numbers and dates
  belong to the JavaScript engine and its locale; they are the parameter \<open>toStr\<close>.
\<close>

fun template :: "(jv \<Rightarrow> string) \<Rightarrow> jv option \<Rightarrow> string" where
  "template toStr None = ''undefined''"
| "template toStr (Some JNull) = ''null''"
| "template toStr (Some (JBool b)) = (if b then ''true'' else ''false'')"
| "template toStr (Some (JStr s)) = s"
| "template toStr (Some v) = toStr v"

text \<open>The driver serialises an \<open>undefined\<close> field value as \<open>null\<close>.\<close>

definition bson :: "jv option \<Rightarrow> jv" where
  "bson v = (case v of None \<Rightarrow> JNull | Some x \<Rightarrow> x)"

text \<open>\<open>ObjectId.toString()\<close>: twenty-four lower-case hexadecimal digits.\<close>

definition hex_digit :: "nat \<Rightarrow> char" where
  "hex_digit d = ''0123456789abcdef'' ! (d mod 16)"

fun hex_digits :: "nat \<Rightarrow> nat \<Rightarrow> string" where
  "hex_digits 0 n = []"
| "hex_digits (Suc k) n = hex_digits k (n div 16) @ [hex_digit n]"

definition oid_str :: "oid \<Rightarrow> string" where
  "oid_str i = hex_digits 24 i"

text \<open>
  What a handler can throw: a failed call of the store, and the error of the constructor
  \<open>new ObjectId(id)\<close>.
\<close>

datatype error = UpstreamFailure | BSONError

text \<open>
  The constructor \<open>new ObjectId(id)\<close> on a string, part of the driver and not under
  src/: a string of twenty-four hexadecimal digits denotes an identifier, and on any
  other string the constructor throws. (Older drivers also read a string of twelve
  characters as twelve bytes; no input below has that length.)
\<close>

definition hex_val :: "char \<Rightarrow> nat option" where
  "hex_val c =
     (case map_of (zip ''0123456789abcdef'' [0, 1, 2, 3, 4, 5, 6, 7, 8, 9, 10, 11, 12, 13, 14, 15]) c of
        Some v \<Rightarrow> Some v
      | None \<Rightarrow> map_of (zip ''ABCDEF'' [10, 11, 12, 13, 14, 15]) c)"

fun hex_value :: "nat \<Rightarrow> string \<Rightarrow> nat option" where
  "hex_value acc [] = Some acc"
| "hex_value acc (c # cs) =
     (case hex_val c of None \<Rightarrow> None | Some v \<Rightarrow> hex_value (16 * acc + v) cs)"

definition ObjectId :: "string \<Rightarrow> error + oid" where
  "ObjectId id' =
     (if length id' = 24
      then (case hex_value 0 id' of Some n \<Rightarrow> Inr n | None \<Rightarrow> Inl BSONError)
      else Inl BSONError)"

text \<open>
  The identifier of a record inserted from a request body: the body's own \<open>_id\<close> when
  it carries one that is not \<open>null\<close>, an \<open>ObjectId\<close> generated by the driver
  otherwise. A generated identifier is an object, hence truthy; a supplied one is truthy
  as its value is. In a template literal a generated identifier gives its hexadecimal
  string.
\<close>

datatype ident = ObjId oid | Supplied jv

fun truthy_id :: "ident \<Rightarrow> bool" where
  "truthy_id (ObjId i) = True"
| "truthy_id (Supplied v) = truthy (Some v)"

fun template_id :: "(jv \<Rightarrow> string) \<Rightarrow> ident \<Rightarrow> string" where
  "template_id toStr (ObjId i) = oid_str i"
| "template_id toStr (Supplied v) = template toStr (Some v)"


section \<open>The resource store\<close>

text \<open>
  Notifications are written by the server only, always with the same fields, so the
  notifications collection is typed. \<open>ntype\<close> is the field \<open>type\<close>; \<open>path\<close> is
  absent in decision notifications.
\<close>

record notification =
  userEmail :: jv
  message :: string
  ntype :: string
  path :: "string option"
  timestamp :: nat
  read :: bool

record store =
  usersCollection :: "(oid \<times> doc) list"
  loansCollection :: "(ident \<times> doc) list"
  applicationsCollection :: "(oid \<times> doc) list"
  notificationsCollection :: "(oid \<times> notification) list"
  next_oid :: oid

record update_result =
  matchedCount :: nat
  modifiedCount :: nat

text \<open>
  Modelled from the spec: the Resource Store Adapter, that is the MongoDB driver's
  collection operations (\<open>findOne\<close>, \<open>find\<close>, \<open>insertOne\<close>, \<open>insertMany\<close>,
  \<open>updateOne\<close>, \<open>updateMany\<close>), which are a dependency and not under src/. Section 6
  of the spec gives their contract: records are addressed by their unique identifier or
  by filter fields; an update that matches nothing reports a zero count (section 7); the
  modified count is the number of records actually changed (glossary). A collection is
  the list of its records in insertion order, each with its identifier; a new record
  gets the next unused identifier.
\<close>

fun set_field :: "string \<Rightarrow> jv \<Rightarrow> doc \<Rightarrow> doc" where
  "set_field k v [] = [(k, v)]"
| "set_field k v ((k', v') # d) =
     (if k' = k then (k, v) # d else (k', v') # set_field k v d)"

text \<open>
  Modelled from the spec: the update operator \<open>$set\<close> of the store; every field of the
  update document is written, in order.
\<close>

fun set_fields :: "doc \<Rightarrow> doc \<Rightarrow> doc" where
  "set_fields [] d = d"
| "set_fields ((k, v) # u) d = set_fields u (set_field k v d)"

text \<open>
  Modelled from the spec: the store's lookup by identifier, \<open>findOne({_id: i})\<close>; the
  first record with the identifier, if any.
\<close>

definition findOne_id :: "oid \<Rightarrow> (oid \<times> 'a) list \<Rightarrow> (oid \<times> 'a) option" where
  "findOne_id i coll = find (\<lambda>r. fst r = i) coll"

text \<open>
  Modelled from the spec: the store's equality filter \<open>{k: v}\<close>. A filter value
  \<open>undefined\<close> is sent as \<open>null\<close>, and \<open>null\<close> matches a field that is \<open>null\<close>
  or missing.
\<close>

definition matches_eq :: "string \<Rightarrow> jv option \<Rightarrow> doc \<Rightarrow> bool" where
  "matches_eq k v d =
     (if bson v = JNull then field d k = None \<or> field d k = Some JNull
      else field d k = Some (bson v))"

text \<open>
  Modelled from the spec: the store's \<open>findOne\<close> with an equality filter; the first
  matching record, if any.
\<close>

definition findOne_eq :: "string \<Rightarrow> jv option \<Rightarrow> (oid \<times> doc) list \<Rightarrow> (oid \<times> doc) option" where
  "findOne_eq k v coll = find (\<lambda>r. matches_eq k v (snd r)) coll"

text \<open>
  Modelled from the spec: the store's \<open>insertOne\<close>; the record is appended under the
  next unused identifier, which is returned as \<open>insertedId\<close>.
\<close>

definition insertOne :: "'a \<Rightarrow> (oid \<times> 'a) list \<Rightarrow> oid \<Rightarrow> (oid \<times> 'a) list \<times> oid" where
  "insertOne d coll nxt = (coll @ [(nxt, d)], nxt)"

text \<open>
  Modelled from the spec: the store's \<open>insertOne\<close> on the loans, whose records keep
  an identifier that the request body supplies; the record is appended under the body's
  \<open>_id\<close>, or under the next unused identifier when the body has none, and that
  identifier is returned as \<open>insertedId\<close>.
\<close>

definition inserted_id :: "doc \<Rightarrow> oid \<Rightarrow> ident" where
  "inserted_id d nxt =
     (case field d ''_id'' of
        None \<Rightarrow> ObjId nxt
      | Some JNull \<Rightarrow> ObjId nxt
      | Some v \<Rightarrow> Supplied v)"

definition insertOne_keep_id ::
  "doc \<Rightarrow> (ident \<times> doc) list \<Rightarrow> oid \<Rightarrow> (ident \<times> doc) list \<times> ident" where
  "insertOne_keep_id d coll nxt = (coll @ [(inserted_id d nxt, d)], inserted_id d nxt)"

text \<open>
  Modelled from the spec: the store's \<open>updateOne({_id: i}, {$set: u})\<close>; the first
  record with the identifier is rewritten, and it counts as modified when the rewriting
  changed it.
\<close>

fun updateOne :: "oid \<Rightarrow> doc \<Rightarrow> (oid \<times> doc) list \<Rightarrow> (oid \<times> doc) list \<times> update_result" where
  "updateOne i u [] = ([], \<lparr>matchedCount = 0, modifiedCount = 0\<rparr>)"
| "updateOne i u ((j, d) # rest) =
     (if j = i
      then ((j, set_fields u d) # rest,
            \<lparr>matchedCount = 1, modifiedCount = (if set_fields u d = d then 0 else 1)\<rparr>)
      else (case updateOne i u rest of (rest', r) \<Rightarrow> ((j, d) # rest', r)))"

text \<open>
  Modelled from the spec: the store's \<open>insertMany\<close>, an ordered bulk write; it either
  completes, or fails after having written some of the records, which stay written.
\<close>

datatype bulk_outcome = Completes | FailsAfter nat

fun number_from :: "oid \<Rightarrow> 'a list \<Rightarrow> (oid \<times> 'a) list" where
  "number_from i [] = []"
| "number_from i (x # xs) = (i, x) # number_from (Suc i) xs"

definition insertMany ::
  "bulk_outcome \<Rightarrow> 'a list \<Rightarrow> (oid \<times> 'a) list \<Rightarrow> oid \<Rightarrow> bool \<times> (oid \<times> 'a) list \<times> oid" where
  "insertMany outcome ds coll nxt =
     (case outcome of
        Completes \<Rightarrow> (True, coll @ number_from nxt ds, nxt + length ds)
      | FailsAfter k \<Rightarrow>
          (False, coll @ number_from nxt (take k ds), nxt + length (take k ds)))"

text \<open>
  Modelled from the spec: the store's
  \<open>updateMany({userEmail: email, read: false}, {$set: {read: true}})\<close> on the
  notifications; every matching record is rewritten, and each of them is changed.
\<close>

definition unread_of :: "string \<Rightarrow> oid \<times> notification \<Rightarrow> bool" where
  "unread_of email r = (userEmail (snd r) = JStr email \<and> read (snd r) = False)"

definition updateMany_read ::
  "string \<Rightarrow> (oid \<times> notification) list \<Rightarrow> (oid \<times> notification) list \<times> update_result" where
  "updateMany_read email coll =
     (map (\<lambda>r. if unread_of email r then (fst r, (snd r)\<lparr>read := True\<rparr>) else r) coll,
      \<lparr>matchedCount = length (filter (unread_of email) coll),
       modifiedCount = length (filter (unread_of email) coll)\<rparr>)"

text \<open>
  Modelled from the spec: the store's \<open>sort({timestamp: -1})\<close> of a \<open>find\<close>; latest
  timestamp first. Records with the same timestamp keep their insertion order.
\<close>

fun insert_desc :: "oid \<times> notification \<Rightarrow> (oid \<times> notification) list \<Rightarrow> (oid \<times> notification) list" where
  "insert_desc x [] = [x]"
| "insert_desc x (y # ys) =
     (if timestamp (snd x) \<ge> timestamp (snd y) then x # y # ys else y # insert_desc x ys)"

definition sort_desc :: "(oid \<times> notification) list \<Rightarrow> (oid \<times> notification) list" where
  "sort_desc xs = foldr insert_desc xs []"


section \<open>Request handlers\<close>

text \<open>
  Each handler takes the parsed request and the store and returns what it sends together
  with the store it leaves; what a handler throws is a value \<open>Inl\<close> of its result.
  The clock read by \<open>new Date()\<close> is a parameter. Apart from those of \<open>POST /loans\<close>,
  store calls are taken to succeed.
\<close>

datatype response =
  SendMessage string
| SendInsert ident
| SendUpdate update_result

text \<open>\<open>POST /users\<close>\<close>

definition post_users :: "doc \<Rightarrow> store \<Rightarrow> response \<times> store" where
  "post_users user s =
     (case findOne_eq ''email'' (field user ''email'') (usersCollection s) of
        Some existingUser \<Rightarrow> (SendMessage ''User already exists'', s)
      | None \<Rightarrow>
          (case insertOne user (usersCollection s) (next_oid s) of
             (coll, insertedId) \<Rightarrow>
               (SendInsert (ObjId insertedId),
                s\<lparr>usersCollection := coll, next_oid := Suc (next_oid s)\<rparr>)))"

text \<open>
  \<open>POST /loans\<close>. \<open>faults\<close> says which store calls of this request fail; the loan
  insert fails when the store cannot be reached or rejects the record, as it does for a
  supplied identifier that is already taken. A failing loan insert throws out of the
  handler; a failure inside the \<open>try\<close> block is caught and logged. The fan-out runs
  only if \<open>result.insertedId\<close> is truthy. The \<open>i\<close>-th notification is stamped with
  the \<open>i\<close>-th reading of the clock.
\<close>

record faults =
  insertOne_fails :: bool
  find_fails :: bool
  insertMany_outcome :: bulk_outcome

definition or_else :: "jv option \<Rightarrow> jv \<Rightarrow> jv" where
  "or_else a b = (if truthy a then bson a else b)"

definition loan_notification ::
  "(jv \<Rightarrow> string) \<Rightarrow> doc \<Rightarrow> ident \<Rightarrow> nat \<Rightarrow> oid \<times> doc \<Rightarrow> notification" where
  "loan_notification toStr loan insertedId now u =
     \<lparr>userEmail = bson (field (snd u) ''email''),
      message = ''New Loan Available: ''
                @ template toStr (Some (or_else (field loan ''title'') (JStr ''Check it out!''))),
      ntype = ''info'',
      path = Some (''/loans/'' @ template_id toStr insertedId),
      timestamp = now,
      read = False\<rparr>"

fun map_clock :: "(nat \<Rightarrow> 'a \<Rightarrow> 'b) \<Rightarrow> (nat \<Rightarrow> nat) \<Rightarrow> nat \<Rightarrow> 'a list \<Rightarrow> 'b list" where
  "map_clock f clock i [] = []"
| "map_clock f clock i (x # xs) = f (clock i) x # map_clock f clock (Suc i) xs"

definition post_loans ::
  "faults \<Rightarrow> (jv \<Rightarrow> string) \<Rightarrow> (nat \<Rightarrow> nat) \<Rightarrow> doc \<Rightarrow> store \<Rightarrow> (error + response) \<times> store" where
  "post_loans f toStr clock loan s =
     (if insertOne_fails f then (Inl UpstreamFailure, s)
      else
        (case insertOne_keep_id loan (loansCollection s) (next_oid s) of
           (coll, insertedId) \<Rightarrow>
             (let s1 = s\<lparr>loansCollection := coll, next_oid := Suc (next_oid s)\<rparr>;
                  allUsers = usersCollection s1
              in if truthy_id insertedId then
                   (if find_fails f then (Inr (SendInsert insertedId), s1)
                    else if length allUsers > 0 then
                      (case insertMany (insertMany_outcome f)
                              (map_clock (loan_notification toStr loan insertedId) clock 0 allUsers)
                              (notificationsCollection s1) (next_oid s1) of
                         (ok, ncoll, nxt) \<Rightarrow>
                           (Inr (SendInsert insertedId),
                            s1\<lparr>notificationsCollection := ncoll, next_oid := nxt\<rparr>))
                    else (Inr (SendInsert insertedId), s1))
                 else (Inr (SendInsert insertedId), s1))))"

text \<open>
  \<open>PATCH /applications/:id\<close>; \<open>id'\<close> is the route parameter as the request
  carries it, and \<open>new ObjectId(id)\<close> throws out of the handler before any store call.
\<close>

definition decision_notification ::
  "(jv \<Rightarrow> string) \<Rightarrow> doc \<Rightarrow> doc \<Rightarrow> nat \<Rightarrow> notification" where
  "decision_notification toStr application updates now =
     \<lparr>userEmail = bson (field application ''userEmail''),
      message = ''Your loan application for '' @ template toStr (field application ''loanTitle'')
                @ '' has been '' @ template toStr (field updates ''status'') @ ''.'',
      ntype = (if field updates ''status'' = Some (JStr ''approved'') then ''success'' else ''error''),
      path = None,
      timestamp = now,
      read = False\<rparr>"

definition patch_applications ::
  "(jv \<Rightarrow> string) \<Rightarrow> nat \<Rightarrow> string \<Rightarrow> doc \<Rightarrow> store \<Rightarrow> (error + response) \<times> store" where
  "patch_applications toStr now id' updates s =
     (case ObjectId id' of
        Inl thrown \<Rightarrow> (Inl thrown, s)
      | Inr i \<Rightarrow>
          (case updateOne i updates (applicationsCollection s) of
             (coll, result) \<Rightarrow>
               (let s1 = s\<lparr>applicationsCollection := coll\<rparr>
                in if modifiedCount result > 0 \<and> truthy (field updates ''status'') then
                     (case findOne_id i (applicationsCollection s1) of
                        Some application \<Rightarrow>
                          (case insertOne (decision_notification toStr (snd application) updates now)
                                  (notificationsCollection s1) (next_oid s1) of
                             (ncoll, insertedId) \<Rightarrow>
                               (Inr (SendUpdate result),
                                s1\<lparr>notificationsCollection := ncoll,
                                   next_oid := Suc (next_oid s1)\<rparr>))
                      | None \<Rightarrow> (Inr (SendUpdate result), s1))
                   else (Inr (SendUpdate result), s1))))"

text \<open>The operation \<open>updateStatus\<close> is this route with the body \<open>{status: newStatus}\<close>.\<close>

definition updateStatus ::
  "(jv \<Rightarrow> string) \<Rightarrow> nat \<Rightarrow> string \<Rightarrow> string \<Rightarrow> store \<Rightarrow> (error + response) \<times> store" where
  "updateStatus toStr now appId newStatus s =
     patch_applications toStr now appId [(''status'', JStr newStatus)] s"

text \<open>
  \<open>PATCH /payments/success/:loanId\<close>; \<open>loanId\<close> is the identifier that the route
  parameter denotes, and \<open>transactionId\<close> is the body's field of that name, \<open>None\<close>
  when the body has none.
\<close>

definition patch_payments_success :: "nat \<Rightarrow> oid \<Rightarrow> jv option \<Rightarrow> store \<Rightarrow> response \<times> store" where
  "patch_payments_success now loanId transactionId s =
     (case updateOne loanId
             [(''feeStatus'', JStr ''paid''),
              (''transactionId'', bson transactionId),
              (''paidAt'', JDate now)]
             (applicationsCollection s) of
        (coll, result) \<Rightarrow> (SendUpdate result, s\<lparr>applicationsCollection := coll\<rparr>))"

text \<open>\<open>GET /notifications/:email\<close>\<close>

definition get_notifications :: "string \<Rightarrow> store \<Rightarrow> (oid \<times> notification) list" where
  "get_notifications email s =
     sort_desc (filter (\<lambda>r. userEmail (snd r) = JStr email) (notificationsCollection s))"

text \<open>\<open>PATCH /notifications/mark-all-read/:email\<close>\<close>

definition patch_mark_all_read :: "string \<Rightarrow> store \<Rightarrow> response \<times> store" where
  "patch_mark_all_read email s =
     (case updateMany_read email (notificationsCollection s) of
        (coll, result) \<Rightarrow> (SendUpdate result, s\<lparr>notificationsCollection := coll\<rparr>))"


section \<open>Session tokens\<close>

record env =
  NODE_ENV :: "string option"
  VERCEL :: "string option"
  JWT_SECRET :: string

text \<open>
  Modelled from the spec: the Session Token Codec, that is \<open>jwt.sign\<close> and
  \<open>jwt.verify\<close> of the jsonwebtoken package, a dependency that is not under src/.
  Section 4.1 of the spec: \<open>issue\<close> serialises the claim plus a fixed validity window
  into a token signed with the server-held secret; \<open>verify\<close> checks signature and
  expiry and fails with \<open>InvalidOrExpired\<close> on a signature mismatch, a malformed token
  or expiry, without telling them apart. The signing function is the parameter \<open>hmac\<close>;
  instants are seconds.
\<close>

datatype 'sg token = Signed doc nat 'sg | Malformed string

datatype auth_error = InvalidOrExpired

text \<open>
  Modelled from the spec: \<open>issue\<close>, the package's \<open>jwt.sign(payload, secret,
  {expiresIn})\<close>, with \<open>expiresIn\<close> in seconds.
\<close>

definition jwt_sign ::
  "(string \<Rightarrow> doc \<Rightarrow> nat \<Rightarrow> 'sg) \<Rightarrow> nat \<Rightarrow> doc \<Rightarrow> string \<Rightarrow> nat \<Rightarrow> 'sg token" where
  "jwt_sign hmac now payload secret expiresIn =
     Signed payload (now + expiresIn) (hmac secret payload (now + expiresIn))"

text \<open>
  Modelled from the spec: \<open>verify\<close>, the package's \<open>jwt.verify(token, secret)\<close>; the
  three failures give the same error.
\<close>

definition jwt_verify ::
  "(string \<Rightarrow> doc \<Rightarrow> nat \<Rightarrow> 'sg) \<Rightarrow> nat \<Rightarrow> 'sg token \<Rightarrow> string \<Rightarrow> auth_error + doc" where
  "jwt_verify hmac now tok secret =
     (case tok of
        Malformed x \<Rightarrow> Inl InvalidOrExpired
      | Signed payload expiry sg \<Rightarrow>
          if sg \<noteq> hmac secret payload expiry then Inl InvalidOrExpired
          else if expiry \<le> now then Inl InvalidOrExpired
          else Inr payload)"

text \<open>\<open>POST /jwt\<close>: the cookie \<open>token\<close> and the body \<open>{success: true, token}\<close>.\<close>

record 'sg cookie =
  cvalue :: "'sg token"
  httpOnly :: bool
  secure :: bool
  sameSite :: string
  maxAge :: nat
  cpath :: string

definition isProduction :: "env \<Rightarrow> bool" where
  "isProduction e = (NODE_ENV e = Some ''production'' \<or> VERCEL e = Some ''1'')"

definition post_jwt ::
  "(string \<Rightarrow> doc \<Rightarrow> nat \<Rightarrow> 'sg) \<Rightarrow> env \<Rightarrow> nat \<Rightarrow> doc \<Rightarrow> 'sg cookie \<times> bool \<times> 'sg token" where
  "post_jwt hmac e now user =
     (let token = jwt_sign hmac now user (JWT_SECRET e) (7 * 24 * 60 * 60)
      in (\<lparr>cvalue = token,
           httpOnly = True,
           secure = isProduction e,
           sameSite = (if isProduction e then ''none'' else ''lax''),
           maxAge = 7 * 24 * 60 * 60 * 1000,
           cpath = ''/''\<rparr>,
          True, token))"

text \<open>
  The middleware \<open>verifyJWT\<close>: the request's cookie \<open>token\<close>, if any, is verified; the
  handler runs (\<open>Next\<close>, with \<open>req.user\<close>) or the request is answered with status 401.
\<close>

datatype auth_result = Rejected nat string | Next doc

definition verifyJWT ::
  "(string \<Rightarrow> doc \<Rightarrow> nat \<Rightarrow> 'sg) \<Rightarrow> env \<Rightarrow> nat \<Rightarrow> 'sg token option \<Rightarrow> auth_result" where
  "verifyJWT hmac e now cookie_token =
     (case cookie_token of
        None \<Rightarrow> Rejected 401 ''Unauthorized access''
      | Some token \<Rightarrow>
          if token = Malformed [] then Rejected 401 ''Unauthorized access''
          else (case jwt_verify hmac now token (JWT_SECRET e) of
                  Inl err \<Rightarrow> Rejected 401 ''Unauthorized access''
                | Inr decoded \<Rightarrow> Next decoded))"


section \<open>Example inputs\<close>

definition no_render :: "jv \<Rightarrow> string" where
  "no_render v = []"

definition car_application :: doc where
  "car_application =
     [(''userEmail'', JStr ''ann@example.com''),
      (''loanTitle'', JStr ''Car''),
      (''status'', JStr ''pending''),
      (''feeStatus'', JStr ''unpaid'')]"

definition ann :: doc where
  "ann = [(''email'', JStr ''ann@example.com''), (''role'', JStr ''borrower'')]"

definition bob :: doc where
  "bob = [(''email'', JStr ''bob@example.com''), (''role'', JStr ''manager'')]"

definition car_loan :: doc where
  "car_loan = [(''title'', JStr ''Car''), (''category'', JStr ''Auto'')]"

definition note_at :: "string \<Rightarrow> nat \<Rightarrow> bool \<Rightarrow> notification" where
  "note_at email t r =
     \<lparr>userEmail = JStr email, message = ''m'', ntype = ''info'', path = None,
      timestamp = t, read = r\<rparr>"

definition store0 :: store where
  "store0 =
     \<lparr>usersCollection = [(1, ann), (2, bob)],
      loansCollection = [],
      applicationsCollection = [(3, car_application)],
      notificationsCollection =
        [(4, note_at ''ann@example.com'' 10 False),
         (5, note_at ''bob@example.com'' 20 False),
         (6, note_at ''ann@example.com'' 30 True)],
      next_oid = 7\<rparr>"

definition untitled_loan :: doc where
  "untitled_loan = [(''title'', JStr []), (''category'', JStr ''Auto'')]"

definition zero_id_loan :: doc where
  "zero_id_loan = [(''_id'', JNum 0), (''title'', JStr ''Car'')]"

definition clock0 :: "nat \<Rightarrow> nat" where
  "clock0 i = 100 + i"

definition no_faults :: faults where
  "no_faults = \<lparr>insertOne_fails = False, find_fails = False, insertMany_outcome = Completes\<rparr>"

definition broken_fanout :: faults where
  "broken_fanout = \<lparr>insertOne_fails = False, find_fails = False, insertMany_outcome = FailsAfter 0\<rparr>"

definition broken_listing :: faults where
  "broken_listing = \<lparr>insertOne_fails = False, find_fails = True, insertMany_outcome = Completes\<rparr>"

definition env0 :: env where
  "env0 = \<lparr>NODE_ENV = None, VERCEL = None, JWT_SECRET = ''secret''\<rparr>"

definition hmac0 :: "string \<Rightarrow> doc \<Rightarrow> nat \<Rightarrow> nat" where
  "hmac0 secret payload expiry = length secret + length payload + expiry"

section \<open>Store and document lemmas\<close>

lemma field_set_field: "field (set_field k v d) k' = (if k' = k then Some v else field d k')"
  by (induction d) (auto simp: field_def)

lemma set_field_same_iff: "set_field k v d = d \<longleftrightarrow> field d k = Some v"
  by (induction d) (auto simp: field_def)

lemma updateOne_absent:
  "findOne_id i coll = None \<Longrightarrow> updateOne i u coll = (coll, \<lparr>matchedCount = 0, modifiedCount = 0\<rparr>)"
  by (induction coll) (auto simp: findOne_id_def split: if_splits)

lemma updateOne_present:
  "findOne_id i coll = Some (i, d) \<Longrightarrow>
   \<exists>n < length coll. coll ! n = (i, d) \<and>
     updateOne i u coll =
       (coll[n := (i, set_fields u d)],
        \<lparr>matchedCount = 1, modifiedCount = (if set_fields u d = d then 0 else 1)\<rparr>)"
proof (induction coll)
  case Nil
  then show ?case by (simp add: findOne_id_def)
next
  case (Cons r coll)
  show ?case
  proof (cases "fst r = i")
    case True
    with Cons.prems have "r = (i, d)" by (simp add: findOne_id_def)
    then have "updateOne i u (r # coll) = ((r # coll)[0 := (i, set_fields u d)],
        \<lparr>matchedCount = 1, modifiedCount = (if set_fields u d = d then 0 else 1)\<rparr>)"
      by simp
    with \<open>r = (i, d)\<close> show ?thesis by (intro exI[of _ 0]) simp
  next
    case False
    with Cons.prems have "findOne_id i coll = Some (i, d)" by (simp add: findOne_id_def)
    from Cons.IH[OF this] obtain n where n: "n < length coll" "coll ! n = (i, d)"
      "updateOne i u coll = (coll[n := (i, set_fields u d)],
        \<lparr>matchedCount = 1, modifiedCount = (if set_fields u d = d then 0 else 1)\<rparr>)" by blast
    from False n show ?thesis
      by (intro exI[of _ "Suc n"]) (cases r, simp)
  qed
qed

lemma findOne_id_updateOne:
  "findOne_id i coll = Some (i, d) \<Longrightarrow> findOne_id i (fst (updateOne i u coll)) = Some (i, set_fields u d)"
  by (induction coll) (auto simp: findOne_id_def split: if_splits prod.splits)

lemma field_set_fields_other:
  "k \<notin> fst ` set u \<Longrightarrow> field (set_fields u d) k = field d k"
  by (induction u d rule: set_fields.induct) (auto simp: field_set_field)

lemma insert_desc_mset: "mset (insert_desc x ys) = add_mset x (mset ys)"
  by (induction ys) auto

lemma sort_desc_mset: "mset (sort_desc xs) = mset xs"
  by (induction xs) (auto simp: sort_desc_def insert_desc_mset)

lemma insert_desc_set: "set (insert_desc x ys) = insert x (set ys)"
  by (induction ys) auto

lemma insert_desc_sorted:
  "sorted_wrt (\<lambda>a b. timestamp (snd a) \<ge> timestamp (snd b)) ys \<Longrightarrow>
   sorted_wrt (\<lambda>a b. timestamp (snd a) \<ge> timestamp (snd b)) (insert_desc x ys)"
  by (induction ys) (auto simp: insert_desc_set)

lemma sort_desc_sorted:
  "sorted_wrt (\<lambda>a b. timestamp (snd a) \<ge> timestamp (snd b)) (sort_desc xs)"
  by (induction xs) (auto simp: sort_desc_def insert_desc_sorted)

lemma updateMany_read_again:
  "filter (unread_of email) (fst (updateMany_read email coll)) = []"
  by (induction coll) (auto simp: updateMany_read_def unread_of_def)

lemma map_no_unread:
  "filter (unread_of email) coll = [] \<Longrightarrow>
   map (\<lambda>r. if unread_of email r then (fst r, (snd r)\<lparr>read := True\<rparr>) else r) coll = coll"
  by (induction coll) (auto split: if_splits)

lemma length_map_clock: "length (map_clock g clock i xs) = length xs"
  by (induction xs arbitrary: i) auto

lemma nth_map_clock:
  "n < length xs \<Longrightarrow> map_clock g clock i xs ! n = g (clock (i + n)) (xs ! n)"
  by (induction xs arbitrary: i n) (auto simp: nth_Cons split: nat.splits)

lemma length_number_from: "length (number_from i xs) = length xs"
  by (induction xs arbitrary: i) auto

lemma nth_number_from: "n < length xs \<Longrightarrow> number_from i xs ! n = (i + n, xs ! n)"
  by (induction xs arbitrary: i n) (auto simp: nth_Cons split: nat.splits)

lemma findOne_eq_member:
  "r \<in> set coll \<Longrightarrow> matches_eq k v (snd r) \<Longrightarrow> findOne_eq k v coll \<noteq> None"
  unfolding findOne_eq_def find_None_iff by blast


lemma ObjectId_3: "ObjectId ''000000000000000000000003'' = Inr 3"
  by code_simp

lemma ObjectId_9: "ObjectId ''000000000000000000000009'' = Inr 9"
  by code_simp

lemma ObjectId_abc: "ObjectId ''abc'' = Inl BSONError"
  by (simp add: ObjectId_def)

lemma oid_str_3: "oid_str 3 = ''000000000000000000000003''"
  by code_simp


section \<open>The claims\<close>

text \<open>
  Claim C1, as the code has it. For an existing application, \<open>updateStatus\<close> with a
  non-empty new status that differs from the stored one reports one modified record and
  inserts exactly one notification, addressed to the application's \<open>userEmail\<close>, of type
  \<open>success\<close> for \<open>approved\<close> and \<open>error\<close> otherwise, with the message
  \<open>Your loan application for <loanTitle> has been <newStatus>.\<close>; afterwards the
  application's status is the new status. The route parameter \<open>id'\<close> is the one that
  denotes the application's identifier \<open>appId\<close>.
\<close>

theorem updateStatus_notifies:
  assumes "ObjectId id' = Inr appId"
    and "findOne_id appId (applicationsCollection s) = Some (appId, d)"
    and "newStatus \<noteq> []"
    and "field d ''status'' \<noteq> Some (JStr newStatus)"
  shows "case updateStatus toStr now id' newStatus s of
           (res, s') \<Rightarrow>
             res = Inr (SendUpdate \<lparr>matchedCount = 1, modifiedCount = 1\<rparr>)
             \<and> notificationsCollection s' =
                 notificationsCollection s @
                   [(next_oid s,
                     \<lparr>userEmail = bson (field d ''userEmail''),
                      message = ''Your loan application for ''
                                @ template toStr (field d ''loanTitle'')
                                @ '' has been '' @ newStatus @ ''.'',
                      ntype = (if newStatus = ''approved'' then ''success'' else ''error''),
                      path = None,
                      timestamp = now,
                      read = False\<rparr>)]
             \<and> findOne_id appId (applicationsCollection s')
                 = Some (appId, set_field ''status'' (JStr newStatus) d)
             \<and> field (set_field ''status'' (JStr newStatus) d) ''status''
                 = Some (JStr newStatus)"
proof -
  let ?u = "[(''status'', JStr newStatus)]"
  let ?d' = "set_field ''status'' (JStr newStatus) d"
  have changed: "set_fields ?u d \<noteq> d"
    using assms(4) by (simp add: set_field_same_iff)
  from updateOne_present[OF assms(2), of ?u] obtain n where
    upd: "updateOne appId ?u (applicationsCollection s) =
            ((applicationsCollection s)[n := (appId, ?d')],
             \<lparr>matchedCount = 1, modifiedCount = 1\<rparr>)"
    using changed by auto
  have reread: "findOne_id appId ((applicationsCollection s)[n := (appId, ?d')]) = Some (appId, ?d')"
    using findOne_id_updateOne[OF assms(2), of ?u] upd by simp
  have fields: "field ?d' ''userEmail'' = field d ''userEmail''"
    "field ?d' ''loanTitle'' = field d ''loanTitle''"
    "field ?d' ''status'' = Some (JStr newStatus)"
    by (simp_all add: field_set_field)
  show ?thesis
    using assms(1,3) upd reread fields
    by (simp add: updateStatus_def patch_applications_def insertOne_def
        decision_notification_def field_def)
qed

theorem updateStatus_notifies_witness:
  "ObjectId ''000000000000000000000003'' = Inr 3
   \<and> findOne_id 3 (applicationsCollection store0) = Some (3, car_application)
   \<and> ''approved'' \<noteq> []
   \<and> field car_application ''status'' \<noteq> Some (JStr ''approved'')
   \<and> fst (updateStatus no_render 100 ''000000000000000000000003'' ''approved'' store0)
       = Inr (SendUpdate \<lparr>matchedCount = 1, modifiedCount = 1\<rparr>)
   \<and> length (notificationsCollection
               (snd (updateStatus no_render 100 ''000000000000000000000003'' ''approved'' store0))) = 4"
proof -
  have h0: "ObjectId ''000000000000000000000003'' = Inr 3"
    by (rule ObjectId_3)
  have h1: "findOne_id 3 (applicationsCollection store0) = Some (3, car_application)"
    by (simp add: findOne_id_def store0_def)
  have h2: "''approved'' \<noteq> []" by simp
  have h3: "field car_application ''status'' \<noteq> Some (JStr ''approved'')"
    by (simp add: field_def car_application_def)
  have len: "length (notificationsCollection store0) = 3" by (simp add: store0_def)
  show ?thesis
    using updateStatus_notifies[OF h0 h1 h2 h3, where toStr = no_render and now = 100] h0 h1 h2 h3 len
    by (cases "updateStatus no_render 100 ''000000000000000000000003'' ''approved'' store0") simp
qed

text \<open>
  The message that C1 states, \<open>Your application for <loanTitle> has been <newStatus>.\<close>,
  is not the message written: approving the application for the loan \<open>Car\<close>.
\<close>

theorem updateStatus_message_counterexample:
  "message (snd (last (notificationsCollection
       (snd (updateStatus no_render 100 ''000000000000000000000003'' ''approved'' store0)))))
     = ''Your loan application for Car has been approved.''
   \<and> message (snd (last (notificationsCollection
       (snd (updateStatus no_render 100 ''000000000000000000000003'' ''approved'' store0)))))
     \<noteq> ''Your application for Car has been approved.''"
  by (simp add: updateStatus_def patch_applications_def store0_def car_application_def
      findOne_id_def insertOne_def decision_notification_def field_def ObjectId_3)

text \<open>
  Claim C2. The token issued by \<open>POST /jwt\<close> for a claim at instant \<open>t0\<close> expires at
  \<open>t0 + 604800\<close> (seven days). Verified at an instant strictly before that, it yields
  the original claim, and the middleware lets the request through with it; verified at
  or after that instant, verification fails with \<open>InvalidOrExpired\<close> and the middleware
  answers 401.
\<close>

theorem verify_issue_roundtrip:
  "(t < t0 + 604800 \<longrightarrow>
      jwt_verify hmac t (snd (snd (post_jwt hmac e t0 claim))) (JWT_SECRET e) = Inr claim
      \<and> verifyJWT hmac e t (Some (cvalue (fst (post_jwt hmac e t0 claim)))) = Next claim)
   \<and> (t0 + 604800 \<le> t \<longrightarrow>
      jwt_verify hmac t (snd (snd (post_jwt hmac e t0 claim))) (JWT_SECRET e) = Inl InvalidOrExpired
      \<and> verifyJWT hmac e t (Some (cvalue (fst (post_jwt hmac e t0 claim))))
          = Rejected 401 ''Unauthorized access'')"
  by (simp add: post_jwt_def jwt_sign_def jwt_verify_def verifyJWT_def Let_def)

theorem verify_issue_roundtrip_witness:
  "(5::nat) < 0 + 604800
   \<and> jwt_verify hmac0 5 (snd (snd (post_jwt hmac0 env0 0 ann))) (JWT_SECRET env0) = Inr ann
   \<and> verifyJWT hmac0 env0 5 (Some (cvalue (fst (post_jwt hmac0 env0 0 ann)))) = Next ann
   \<and> (0::nat) + 604800 \<le> 604800
   \<and> jwt_verify hmac0 604800 (snd (snd (post_jwt hmac0 env0 0 ann))) (JWT_SECRET env0)
       = Inl InvalidOrExpired
   \<and> verifyJWT hmac0 env0 604800 (Some (cvalue (fst (post_jwt hmac0 env0 0 ann))))
       = Rejected 401 ''Unauthorized access''"
  using verify_issue_roundtrip[where t = 5 and ?t0.0 = 0 and hmac = hmac0 and e = env0 and claim = ann]
    verify_issue_roundtrip[where t = 604800 and ?t0.0 = 0 and hmac = hmac0 and e = env0 and claim = ann]
  by simp

text \<open>
  Claim C3, as the code has it. When the loan insert succeeds with a truthy inserted
  identifier, as every generated identifier is, and the listing of the users and the
  bulk insert succeed, creating a loan with \<open>N\<close> users in the users collection inserts
  exactly \<open>N\<close> notifications, the \<open>i\<close>-th addressed to the \<open>i\<close>-th user's email, each
  of type \<open>info\<close>, with the path \<open>/loans/<identifier of the new loan>\<close> and the message
  \<open>New Loan Available: <title>\<close>, where the title is the loan's title, or the text
  \<open>Check it out!\<close> when the loan has no title or a falsy one.
\<close>

theorem post_loans_broadcast:
  assumes "\<not> insertOne_fails f" and "\<not> find_fails f" and "insertMany_outcome f = Completes"
    and "truthy_id (inserted_id loan (next_oid s))"
  shows "case post_loans f toStr clock loan s of
           (res, s') \<Rightarrow>
             res = Inr (SendInsert (inserted_id loan (next_oid s)))
             \<and> (\<exists>new. notificationsCollection s' = notificationsCollection s @ new
                   \<and> length new = length (usersCollection s)
                   \<and> (\<forall>i < length (usersCollection s).
                        new ! i =
                          (Suc (next_oid s) + i,
                           \<lparr>userEmail = bson (field (snd (usersCollection s ! i)) ''email''),
                            message = ''New Loan Available: ''
                              @ (if truthy (field loan ''title'')
                                 then template toStr (field loan ''title'')
                                 else ''Check it out!''),
                            ntype = ''info'',
                            path = Some (''/loans/''
                              @ template_id toStr (inserted_id loan (next_oid s))),
                            timestamp = clock i,
                            read = False\<rparr>)))"
proof -
  let ?id = "inserted_id loan (next_oid s)"
  let ?g = "loan_notification toStr loan ?id"
  let ?new = "number_from (Suc (next_oid s)) (map_clock ?g clock 0 (usersCollection s))"
  have msg: "template toStr (Some (or_else (field loan ''title'') (JStr ''Check it out!'')))
               = (if truthy (field loan ''title'')
                  then template toStr (field loan ''title'') else ''Check it out!'')"
    by (cases "field loan ''title''") (auto simp: or_else_def bson_def)
  have len: "length ?new = length (usersCollection s)"
    by (simp add: length_number_from length_map_clock)
  have nth: "\<forall>i < length (usersCollection s).
      ?new ! i = (Suc (next_oid s) + i,
                  \<lparr>userEmail = bson (field (snd (usersCollection s ! i)) ''email''),
                   message = ''New Loan Available: ''
                     @ (if truthy (field loan ''title'')
                        then template toStr (field loan ''title'')
                        else ''Check it out!''),
                   ntype = ''info'',
                   path = Some (''/loans/'' @ template_id toStr ?id),
                   timestamp = clock i,
                   read = False\<rparr>)"
    using msg by (simp add: nth_number_from nth_map_clock length_map_clock loan_notification_def)
  show ?thesis
  proof (cases "usersCollection s = []")
    case True
    with assms(1,2,4) show ?thesis
      by (simp add: post_loans_def insertOne_keep_id_def Let_def)
  next
    case False
    with assms have
      "post_loans f toStr clock loan s =
         (Inr (SendInsert ?id),
          s\<lparr>loansCollection := loansCollection s @ [(?id, loan)],
            next_oid := Suc (next_oid s) + length (usersCollection s),
            notificationsCollection := notificationsCollection s @ ?new\<rparr>)"
      by (simp add: post_loans_def insertOne_keep_id_def insertMany_def length_map_clock Let_def)
    with len nth show ?thesis by simp
  qed
qed

theorem post_loans_broadcast_witness:
  "\<not> insertOne_fails no_faults \<and> \<not> find_fails no_faults
   \<and> insertMany_outcome no_faults = Completes
   \<and> truthy_id (inserted_id car_loan (next_oid store0))
   \<and> fst (post_loans no_faults no_render clock0 car_loan store0) = Inr (SendInsert (ObjId 7))
   \<and> length (notificationsCollection (snd (post_loans no_faults no_render clock0 car_loan store0)))
       = 3 + length (usersCollection store0)"
proof -
  have h1: "\<not> insertOne_fails no_faults" by (simp add: no_faults_def)
  have h2: "\<not> find_fails no_faults" by (simp add: no_faults_def)
  have h3: "insertMany_outcome no_faults = Completes" by (simp add: no_faults_def)
  have i: "inserted_id car_loan (next_oid store0) = ObjId 7"
    by (simp add: inserted_id_def field_def car_loan_def store0_def)
  have h4: "truthy_id (inserted_id car_loan (next_oid store0))" using i by simp
  have st: "length (notificationsCollection store0) = 3"
    by (simp add: store0_def)
  show ?thesis
    using post_loans_broadcast[OF h1 h2 h3 h4, where toStr = no_render and clock = clock0]
      h1 h2 h3 h4 i st
    by (cases "post_loans no_faults no_render clock0 car_loan store0") auto
qed

text \<open>
  C3 as stated fails in each of these runs on a store with two users. The message
  written for the loan \<open>Car\<close> is \<open>New Loan Available: Car\<close>, not
  \<open>New loan available: Car\<close>. A request whose bulk insert fails, and one whose listing
  of the users fails, still succeed, with no notification inserted. A request whose body
  carries the identifier \<open>0\<close> succeeds, and the fan-out is skipped. A loan with the empty
  title gets the message \<open>New Loan Available: Check it out!\<close>, which does not end with
  its title.
\<close>

theorem post_loans_broadcast_counterexample:
  "length (usersCollection store0) = 2
   \<and> map (message \<circ> snd)
       (drop 3 (notificationsCollection (snd (post_loans no_faults no_render clock0 car_loan store0))))
     = [''New Loan Available: Car'', ''New Loan Available: Car'']
   \<and> ''New Loan Available: Car'' \<noteq> ''New loan available: Car''
   \<and> fst (post_loans broken_fanout no_render clock0 car_loan store0) = Inr (SendInsert (ObjId 7))
   \<and> notificationsCollection (snd (post_loans broken_fanout no_render clock0 car_loan store0))
     = notificationsCollection store0
   \<and> fst (post_loans broken_listing no_render clock0 car_loan store0) = Inr (SendInsert (ObjId 7))
   \<and> notificationsCollection (snd (post_loans broken_listing no_render clock0 car_loan store0))
     = notificationsCollection store0
   \<and> fst (post_loans no_faults no_render clock0 zero_id_loan store0)
     = Inr (SendInsert (Supplied (JNum 0)))
   \<and> notificationsCollection (snd (post_loans no_faults no_render clock0 zero_id_loan store0))
     = notificationsCollection store0
   \<and> field untitled_loan ''title'' = Some (JStr [])
   \<and> map (message \<circ> snd)
       (drop 3 (notificationsCollection (snd (post_loans no_faults no_render clock0 untitled_loan store0))))
     = [''New Loan Available: Check it out!'', ''New Loan Available: Check it out!'']
   \<and> ''New Loan Available: Check it out!'' \<noteq> ''New Loan Available: '' @ []"
  by (simp add: post_loans_def store0_def car_loan_def zero_id_loan_def untitled_loan_def
      no_faults_def broken_fanout_def broken_listing_def insertOne_keep_id_def inserted_id_def
      insertMany_def loan_notification_def or_else_def bson_def field_def Let_def)

text \<open>
  Claim C4, as the code has it. When the route parameter is a well-formed identifier,
  twenty-four hexadecimal digits, and no stored application has that identifier,
  \<open>updateStatus\<close> answers with an update result whose matched and modified counts are
  zero, inserts no notification and leaves the whole store as it was; the answer is a
  result, not an error.
\<close>

theorem updateStatus_unknown:
  assumes "ObjectId id' = Inr appId"
    and "findOne_id appId (applicationsCollection s) = None"
  shows "updateStatus toStr now id' newStatus s =
           (Inr (SendUpdate \<lparr>matchedCount = 0, modifiedCount = 0\<rparr>), s)"
  using assms by (simp add: updateStatus_def patch_applications_def updateOne_absent)

theorem updateStatus_unknown_witness:
  "ObjectId ''000000000000000000000009'' = Inr 9
   \<and> findOne_id 9 (applicationsCollection store0) = None
   \<and> updateStatus no_render 100 ''000000000000000000000009'' ''approved'' store0
       = (Inr (SendUpdate \<lparr>matchedCount = 0, modifiedCount = 0\<rparr>), store0)"
proof -
  have h0: "ObjectId ''000000000000000000000009'' = Inr 9"
    by (rule ObjectId_9)
  have h: "findOne_id 9 (applicationsCollection store0) = None"
    by (simp add: findOne_id_def store0_def)
  show ?thesis
    using updateStatus_unknown[OF h0 h, where toStr = no_render and now = 100
        and newStatus = "''approved''"] h0 h
    by simp
qed

text \<open>
  C4 as stated, for every identifier that matches no stored application, fails: the
  route parameter \<open>abc\<close> is the identifier of no stored application, the only one being
  \<open>000000000000000000000003\<close>, and on it \<open>new ObjectId\<close> throws, so the request ends
  in an error instead of a zero-count result.
\<close>

theorem updateStatus_malformed_counterexample:
  "map (oid_str \<circ> fst) (applicationsCollection store0) = [''000000000000000000000003'']
   \<and> ''abc'' \<noteq> ''000000000000000000000003''
   \<and> ObjectId ''abc'' = Inl BSONError
   \<and> updateStatus no_render 100 ''abc'' ''approved'' store0 = (Inl BSONError, store0)"
  by (simp add: updateStatus_def patch_applications_def ObjectId_abc store0_def oid_str_3)



text \<open>
  Claim C6. When a stored user already has the email of a user-creation request, the
  request is answered with the message \<open>User already exists\<close>, nothing is inserted, and
  the store, with the record of that email, is left exactly as it was.
\<close>

theorem post_users_existing:
  assumes "field user ''email'' = Some (JStr e)"
    and "(i, d) \<in> set (usersCollection s)"
    and "field d ''email'' = Some (JStr e)"
  shows "post_users user s = (SendMessage ''User already exists'', s)"
proof -
  have "matches_eq ''email'' (field user ''email'') (snd (i, d))"
    using assms(1,3) by (simp add: matches_eq_def bson_def)
  from findOne_eq_member[OF assms(2) this]
  show ?thesis by (auto simp: post_users_def)
qed

theorem post_users_existing_witness:
  "field ann ''email'' = Some (JStr ''ann@example.com'')
   \<and> (1, ann) \<in> set (usersCollection store0)
   \<and> post_users ann store0 = (SendMessage ''User already exists'', store0)"
proof -
  have h1: "field ann ''email'' = Some (JStr ''ann@example.com'')"
    by (simp add: field_def ann_def)
  have h2: "(1, ann) \<in> set (usersCollection store0)" by (simp add: store0_def)
  from post_users_existing[OF h1 h2 h1] h1 h2 show ?thesis by blast
qed

text \<open>
  Claim C7. Whenever the loan insert of a loan-creation request succeeds, the request is
  answered with the insert result and the loan is in the loans collection afterwards,
  whatever happens to the listing of the users and to the bulk insert of the
  notifications: a failure there is caught and changes neither.
\<close>

theorem post_loans_fanout_failure_swallowed:
  assumes "\<not> insertOne_fails f"
  shows "fst (post_loans f toStr clock loan s) = Inr (SendInsert (inserted_id loan (next_oid s)))
       \<and> loansCollection (snd (post_loans f toStr clock loan s))
           = loansCollection s @ [(inserted_id loan (next_oid s), loan)]"
  using assms
  by (simp add: post_loans_def insertOne_keep_id_def insertMany_def Let_def
      split: bulk_outcome.splits)

theorem post_loans_fanout_failure_swallowed_witness:
  "\<not> insertOne_fails broken_fanout
   \<and> insertMany_outcome broken_fanout = FailsAfter 0
   \<and> inserted_id car_loan (next_oid store0) = ObjId 7
   \<and> fst (post_loans broken_fanout no_render clock0 car_loan store0)
       = Inr (SendInsert (inserted_id car_loan (next_oid store0)))
   \<and> loansCollection (snd (post_loans broken_fanout no_render clock0 car_loan store0))
       = loansCollection store0 @ [(inserted_id car_loan (next_oid store0), car_loan)]"
proof -
  have h: "\<not> insertOne_fails broken_fanout" by (simp add: broken_fanout_def)
  have k: "insertMany_outcome broken_fanout = FailsAfter 0" by (simp add: broken_fanout_def)
  have i: "inserted_id car_loan (next_oid store0) = ObjId 7"
    by (simp add: inserted_id_def field_def car_loan_def store0_def)
  from post_loans_fanout_failure_swallowed[OF h, where toStr = no_render and clock = clock0
      and loan = car_loan and s = store0] h k i
  show ?thesis by blast
qed

text \<open>
  Claim C8. \<open>listForUser\<close> (the route \<open>GET /notifications/:email\<close>) returns exactly the
  notifications whose recipient is the email, each as often as it is stored, ordered by
  timestamp descending.
\<close>

theorem get_notifications_sorted:
  "mset (get_notifications email s) =
     mset (filter (\<lambda>r. userEmail (snd r) = JStr email) (notificationsCollection s))
   \<and> sorted_wrt (\<lambda>a b. timestamp (snd a) \<ge> timestamp (snd b)) (get_notifications email s)"
  by (simp add: get_notifications_def sort_desc_mset sort_desc_sorted)

theorem get_notifications_sorted_witness:
  "map fst (get_notifications ''ann@example.com'' store0) = [6, 4]
   \<and> sorted_wrt (\<lambda>a b. timestamp (snd a) \<ge> timestamp (snd b))
        (get_notifications ''ann@example.com'' store0)"
proof -
  have "map fst (get_notifications ''ann@example.com'' store0) = [6, 4]"
    by (simp add: get_notifications_def sort_desc_def store0_def note_at_def)
  with get_notifications_sorted[where email = "''ann@example.com''" and s = store0] show ?thesis by blast
qed

text \<open>
  Claim C9. \<open>markAllRead\<close> (the route \<open>PATCH /notifications/mark-all-read/:email\<close>) is
  idempotent: invoked again on the store that a first invocation left, it matches and
  modifies zero records and leaves that store unchanged.
\<close>

theorem markAllRead_idempotent:
  "case patch_mark_all_read email s of
     (r1, s1) \<Rightarrow>
       patch_mark_all_read email s1 = (SendUpdate \<lparr>matchedCount = 0, modifiedCount = 0\<rparr>, s1)"
proof -
  let ?c1 = "fst (updateMany_read email (notificationsCollection s))"
  have none: "filter (unread_of email) ?c1 = []" by (rule updateMany_read_again)
  have "updateMany_read email ?c1 = (?c1, \<lparr>matchedCount = 0, modifiedCount = 0\<rparr>)"
    unfolding updateMany_read_def[of email ?c1] using none map_no_unread[OF none] by simp
  then show ?thesis
    by (cases "updateMany_read email (notificationsCollection s)")
       (simp add: patch_mark_all_read_def)
qed

theorem markAllRead_idempotent_witness:
  "fst (patch_mark_all_read ''ann@example.com'' store0)
     = SendUpdate \<lparr>matchedCount = 1, modifiedCount = 1\<rparr>
   \<and> patch_mark_all_read ''ann@example.com'' (snd (patch_mark_all_read ''ann@example.com'' store0))
     = (SendUpdate \<lparr>matchedCount = 0, modifiedCount = 0\<rparr>,
        snd (patch_mark_all_read ''ann@example.com'' store0))"
proof -
  have "fst (patch_mark_all_read ''ann@example.com'' store0)
          = SendUpdate \<lparr>matchedCount = 1, modifiedCount = 1\<rparr>"
    by (simp add: patch_mark_all_read_def updateMany_read_def unread_of_def store0_def note_at_def)
  with markAllRead_idempotent[where email = "''ann@example.com''" and s = store0] show ?thesis
    by (cases "patch_mark_all_read ''ann@example.com'' store0") simp
qed

text \<open>
  Claim C10. For an existing application, \<open>confirmPayment\<close> replaces that one record of
  the applications collection by a record in which every field other than \<open>feeStatus\<close>,
  \<open>transactionId\<close> and \<open>paidAt\<close> reads as before; every other record of the
  applications, and every other collection of the store, is unchanged.
\<close>

theorem confirmPayment_frame:
  assumes "findOne_id appId (applicationsCollection s) = Some (appId, d)"
  shows "\<exists>n d'. n < length (applicationsCollection s)
           \<and> applicationsCollection s ! n = (appId, d)
           \<and> snd (patch_payments_success now appId transactionId s)
               = s\<lparr>applicationsCollection := (applicationsCollection s)[n := (appId, d')]\<rparr>
           \<and> (\<forall>k. k \<notin> {''feeStatus'', ''transactionId'', ''paidAt''} \<longrightarrow> field d' k = field d k)"
proof -
  let ?u = "[(''feeStatus'', JStr ''paid''), (''transactionId'', bson transactionId), (''paidAt'', JDate now)]"
  from updateOne_present[OF assms, of ?u] obtain n where
    n: "n < length (applicationsCollection s)" "applicationsCollection s ! n = (appId, d)"
    and upd: "fst (updateOne appId ?u (applicationsCollection s))
            = (applicationsCollection s)[n := (appId, set_fields ?u d)]"
    by auto
  have frame: "\<forall>k. k \<notin> {''feeStatus'', ''transactionId'', ''paidAt''}
                 \<longrightarrow> field (set_fields ?u d) k = field d k"
    by (simp add: field_set_field)
  have "snd (patch_payments_success now appId transactionId s)
          = s\<lparr>applicationsCollection := (applicationsCollection s)[n := (appId, set_fields ?u d)]\<rparr>"
    using upd by (cases "updateOne appId ?u (applicationsCollection s)")
                 (simp add: patch_payments_success_def)
  with n frame show ?thesis by blast
qed

theorem confirmPayment_frame_witness:
  "findOne_id 3 (applicationsCollection store0) = Some (3, car_application)
   \<and> (\<exists>n d'. n < length (applicationsCollection store0)
           \<and> applicationsCollection store0 ! n = (3, car_application)
           \<and> snd (patch_payments_success 100 3 (Some (JStr ''tx_123'')) store0)
               = store0\<lparr>applicationsCollection := (applicationsCollection store0)[n := (3, d')]\<rparr>
           \<and> (\<forall>k. k \<notin> {''feeStatus'', ''transactionId'', ''paidAt''}
                  \<longrightarrow> field d' k = field car_application k))"
proof -
  have h: "findOne_id 3 (applicationsCollection store0) = Some (3, car_application)"
    by (simp add: findOne_id_def store0_def)
  from confirmPayment_frame[OF h, where now = 100 and transactionId = "Some (JStr ''tx_123'')"] h show ?thesis by blast
qed

end
